theory Spec2Isabelle
  imports Main
begin

section \<open>The mock server of \<open>src/backend/simple-server.py\<close>\<close>

text \<open>
  The class \<open>BlackCrossHandler\<close> has three methods, \<open>do_GET\<close>, \<open>do_POST\<close> and
  \<open>do_OPTIONS\<close>. Each is embedded as a function from what it reads of the request to
  an outcome: either the response it sends, or the exception that leaves the method.

  A response is recorded as the handler's own calls: the code and message passed
  to \<open>send_response\<close> or \<open>send_error\<close>, the headers it passes to \<open>send_header\<close>, in
  order, and what it writes to \<open>wfile\<close>. The headers that \<open>http.server\<close> adds by itself
  (\<open>Server\<close> and \<open>Date\<close> in \<open>send_response\<close>; \<open>Connection\<close>, \<open>Content-Type\<close> and
  \<open>Content-Length\<close> of the HTML page in \<open>send_error\<close>) are not part of the record; \<open>on_wire\<close>
  adds the first two where a statement is about the response as it is sent.

  Library functions are modelled where the handler's control flow depends on them:
  \<open>int\<close>, the header lookup, \<open>rfile.read\<close>, \<open>dict.get\<close> and the path component of
  \<open>urlparse\<close> (Python 3.11). Three are parameters of the model: \<open>loads\<close>, for
  \<open>json.loads(post_data.decode())\<close>, \<open>checknetloc\<close>, for the host checks inside
  \<open>urlsplit\<close>, and \<open>can_allocate\<close>, for what the interpreter can allocate.
\<close>

subsection \<open>Values\<close>

text \<open>
  What \<open>json.loads\<close> returns and \<open>json.dumps\<close> takes. A \<open>dict\<close> is an association list
  in insertion order, which is the order \<open>json.dumps\<close> writes; a float is kept by its
  text, no claim reads one.
\<close>

datatype json =
    JNull
  | JBool bool
  | JInt int
  | JFloat string
  | JStr string
  | JArr "json list"
  | JObj "(string \<times> json) list"

text \<open>Exceptions that leave a handler method; those caught by the \<open>except\<close> clause
  of \<open>do_POST\<close> are kept by their text \<open>str(e)\<close> instead.\<close>

datatype exn = TypeError | ValueError | OverflowError | MemoryError

datatype payload =
    Empty
  | Json json
  | ErrorPage nat "string option"

record response =
  status :: nat
  reason :: "string option"
  headers :: "(string \<times> string) list"
  body :: payload

datatype outcome = Sent response | Raised exn

datatype verb = GET | POST | OPTIONS

text \<open>
  A request: the command, \<open>self.path\<close>, the header lines as (name, value) pairs in the
  order received, and \<open>rfile\<close>, the bytes that arrive after the headers before the client
  stops sending.
\<close>

record request =
  command :: verb
  self_path :: string
  req_headers :: "(string \<times> string) list"
  rfile :: string

subsection \<open>Library functions the handler calls\<close>

definition ord :: "char \<Rightarrow> nat" where
  "ord c = of_char c"

definition lower_char :: "char \<Rightarrow> char" where
  "lower_char c =
     (case map_of (zip ''ABCDEFGHIJKLMNOPQRSTUVWXYZ'' ''abcdefghijklmnopqrstuvwxyz'') c of
        None \<Rightarrow> c
      | Some l \<Rightarrow> l)"

definition lower :: "string \<Rightarrow> string" where
  "lower s = map lower_char s"

definition isdigit :: "char \<Rightarrow> bool" where
  "isdigit c = (48 \<le> ord c \<and> ord c \<le> 57)"

definition isalpha :: "char \<Rightarrow> bool" where
  "isalpha c = ((65 \<le> ord c \<and> ord c \<le> 90) \<or> (97 \<le> ord c \<and> ord c \<le> 122))"

text \<open>White space as \<open>int\<close> strips it, on the code points a header value can hold
  (it is decoded as ISO-8859-1).\<close>

definition isspace :: "char \<Rightarrow> bool" where
  "isspace c = ((9 \<le> ord c \<and> ord c \<le> 13) \<or> ord c = 32 \<or> ord c = 133 \<or> ord c = 160)"

definition strip :: "string \<Rightarrow> string" where
  "strip s = rev (dropWhile isspace (rev (dropWhile isspace s)))"

text \<open>
  \<open>self.headers[name]\<close>: the value of the first header whose name matches without
  regard to case, \<open>None\<close> when there is none. (Python lowers non-ASCII letters too; against
  an ASCII name that decides nothing.)
\<close>

fun headers_getitem :: "(string \<times> string) list \<Rightarrow> string \<Rightarrow> string option" where
  "headers_getitem [] name = None"
| "headers_getitem ((k, v) # hs) name =
     (if lower k = lower name then Some v else headers_getitem hs name)"

text \<open>
  The digits of a base-10 literal: at least one digit, single underscores between digits
  only. The flag says that the last character read was a digit; the result is the value
  and the number of digits.
\<close>

fun int_digits :: "bool \<Rightarrow> nat \<Rightarrow> nat \<Rightarrow> string \<Rightarrow> (nat \<times> nat) option" where
  "int_digits d acc k [] = (if d then Some (acc, k) else None)"
| "int_digits d acc k (c # cs) =
     (if isdigit c then int_digits True (acc * 10 + (ord c - 48)) (Suc k) cs
      else if c = CHR ''_'' \<and> d then int_digits False acc k cs
      else None)"

definition int_unsigned :: "string \<Rightarrow> exn + int" where
  "int_unsigned s =
     (case int_digits False 0 0 s of
        None \<Rightarrow> Inl ValueError
      | Some (v, k) \<Rightarrow> if 4300 < k then Inl ValueError else Inr (int v))"

text \<open>
  \<open>int(x)\<close> for \<open>x\<close> a header value or \<open>None\<close>: \<open>TypeError\<close> on \<open>None\<close>, \<open>ValueError\<close> on
  a string that is not an optionally signed decimal literal between white space, or that
  has more than 4300 digits.
\<close>

definition py_int :: "string option \<Rightarrow> exn + int" where
  "py_int x =
     (case x of
        None \<Rightarrow> Inl TypeError
      | Some s \<Rightarrow>
          (case strip s of
             [] \<Rightarrow> Inl ValueError
           | c # cs \<Rightarrow>
               if c = CHR ''-'' then
                 (case int_unsigned cs of Inl e \<Rightarrow> Inl e | Inr v \<Rightarrow> Inr (- v))
               else if c = CHR ''+'' then int_unsigned cs
               else int_unsigned (c # cs)))"

text \<open>
  \<open>rfile.read(n)\<close> on the buffered reader of the connection (CPython, 64-bit). The
  argument has to fit a signed 64-bit index, else \<open>OverflowError\<close>; below \<open>-1\<close> it is
  refused with \<open>ValueError\<close>; \<open>-1\<close> reads to the end of the stream. Otherwise the reader
  allocates a bytes object of \<open>n\<close> bytes before it reads: \<open>OverflowError\<close> when \<open>n\<close>
  and the 33 bytes of the object header exceed the largest index, \<open>MemoryError\<close> when
  the allocation fails, which depends on the machine and is the parameter
  \<open>can_allocate\<close>. The result is up to \<open>n\<close> bytes of the stream. The stream is taken
  as delivered: how long the call waits, and a connection that fails during the read,
  are not modelled.
\<close>

definition rfile_read :: "(nat \<Rightarrow> bool) \<Rightarrow> int \<Rightarrow> string \<Rightarrow> exn + string" where
  "rfile_read can_allocate n stream =
     (if n < - (2 ^ 63) \<or> 2 ^ 63 \<le> n then Inl OverflowError
      else if n < - 1 then Inl ValueError
      else if n = - 1 then
        (if can_allocate (length stream) then Inr stream else Inl MemoryError)
      else if 2 ^ 63 - 1 - 33 < n then Inl OverflowError
      else if \<not> can_allocate (nat n) then Inl MemoryError
      else Inr (take (nat n) stream))"

definition type_name :: "json \<Rightarrow> string" where
  "type_name v =
     (case v of
        JNull \<Rightarrow> ''NoneType''
      | JBool _ \<Rightarrow> ''bool''
      | JInt _ \<Rightarrow> ''int''
      | JFloat _ \<Rightarrow> ''float''
      | JStr _ \<Rightarrow> ''str''
      | JArr _ \<Rightarrow> ''list''
      | JObj _ \<Rightarrow> ''dict'')"

definition no_attribute :: "json \<Rightarrow> string \<Rightarrow> string" where
  "no_attribute v name =
     [CHR 0x27] @ type_name v @ [CHR 0x27] @ '' object has no attribute ''
       @ [CHR 0x27] @ name @ [CHR 0x27]"

text \<open>\<open>data.get(key, default)\<close>: only a \<open>dict\<close> has the method; on any other value the
  attribute lookup raises \<open>AttributeError\<close>, kept by its text.\<close>

definition data_get :: "json \<Rightarrow> string \<Rightarrow> json \<Rightarrow> string + json" where
  "data_get data key dflt =
     (case data of
        JObj kvs \<Rightarrow> Inr (case map_of kvs key of None \<Rightarrow> dflt | Some v \<Rightarrow> v)
      | _ \<Rightarrow> Inl (no_attribute data ''get''))"

subsection \<open>The path component of \<open>urlparse\<close>\<close>

definition c0_control_or_space :: "char \<Rightarrow> bool" where
  "c0_control_or_space c = (ord c \<le> 32)"

definition unsafe_url_byte :: "char \<Rightarrow> bool" where
  "unsafe_url_byte c = (ord c = 9 \<or> ord c = 13 \<or> ord c = 10)"

definition scheme_chars :: "char \<Rightarrow> bool" where
  "scheme_chars c = (isalpha c \<or> isdigit c \<or> c = CHR ''+'' \<or> c = CHR ''-'' \<or> c = CHR ''.'')"

definition uses_params :: "string list" where
  "uses_params = ['''', ''ftp'', ''hdl'', ''prospero'', ''http'', ''imap'',
                  ''https'', ''shttp'', ''rtsp'', ''rtsps'', ''rtspu'', ''sip'',
                  ''sips'', ''mms'', ''sftp'', ''tel'']"

text \<open>The scheme, when the text before the first colon is one, and the rest.\<close>

definition split_scheme :: "string \<Rightarrow> string \<times> string" where
  "split_scheme url =
     (let pre = takeWhile (\<lambda>c. c \<noteq> CHR '':'') url in
      if CHR '':'' \<in> set url \<and> pre \<noteq> [] \<and> isalpha (hd pre) \<and> list_all scheme_chars pre
      then (lower pre, drop (Suc (length pre)) url)
      else ('''', url))"

definition netloc_delim :: "char \<Rightarrow> bool" where
  "netloc_delim c = (c = CHR ''/'' \<or> c = CHR ''?'' \<or> c = CHR ''#'')"

definition splitnetloc :: "string \<Rightarrow> string \<times> string" where
  "splitnetloc url =
     (let r = drop 2 url in (takeWhile (\<lambda>c. \<not> netloc_delim c) r, dropWhile (\<lambda>c. \<not> netloc_delim c) r))"

definition rfind_slash :: "string \<Rightarrow> nat" where
  "rfind_slash url = length url - Suc (length (takeWhile (\<lambda>c. c \<noteq> CHR ''/'') (rev url)))"

definition splitparams :: "string \<Rightarrow> string" where
  "splitparams url =
     (if CHR ''/'' \<in> set url then
        (let i = rfind_slash url; rest = drop i url in
         if CHR '';'' \<in> set rest then take i url @ takeWhile (\<lambda>c. c \<noteq> CHR '';'') rest else url)
      else takeWhile (\<lambda>c. c \<noteq> CHR '';'') url)"

text \<open>
  \<open>urlparse(url).path\<close>. \<open>urlsplit\<close> strips leading controls and spaces, removes tabs and
  line ends, splits off a scheme, then a network location after \<open>//\<close>, the fragment and
  the query; \<open>urlparse\<close> then splits the parameters off the last segment. \<open>ValueError\<close>
  comes from the checks on the network location: unbalanced brackets, and the two helper
  checks \<open>_check_bracketed_host\<close> and \<open>_checknetloc\<close>, whose passing is the parameter
  \<open>checknetloc\<close>.
\<close>

definition urlparse_path :: "(string \<Rightarrow> bool) \<Rightarrow> string \<Rightarrow> exn + string" where
  "urlparse_path checknetloc url0 =
     (let url1 = filter (\<lambda>c. \<not> unsafe_url_byte c) (dropWhile c0_control_or_space url0);
          (scheme, url2) = split_scheme url1;
          (netloc, url3) = (if take 2 url2 = ''//'' then splitnetloc url2 else ('''', url2));
          url4 = takeWhile (\<lambda>c. c \<noteq> CHR ''?'') (takeWhile (\<lambda>c. c \<noteq> CHR ''#'') url3)
      in
      if (CHR ''['' \<in> set netloc \<and> CHR '']'' \<notin> set netloc)
           \<or> (CHR '']'' \<in> set netloc \<and> CHR ''['' \<notin> set netloc)
      then Inl ValueError
      else if netloc \<noteq> [] \<and> \<not> checknetloc netloc then Inl ValueError
      else if scheme \<in> set uses_params \<and> CHR '';'' \<in> set url4 then Inr (splitparams url4)
      else Inr url4)"

subsection \<open>Sending\<close>

text \<open>\<open>send_error(code, message)\<close>: the status, the message in the status line (\<open>None\<close>
  for the standard phrase of the code) and the HTML page built from both.\<close>

definition send_error :: "nat \<Rightarrow> string option \<Rightarrow> response" where
  "send_error code message =
     \<lparr>status = code, reason = message, headers = [], body = ErrorPage code message\<rparr>"

text \<open>The four lines every JSON reply of the handler starts with, and the write of
  \<open>json.dumps(response).encode()\<close>.\<close>

definition send_json :: "json \<Rightarrow> response" where
  "send_json v =
     \<lparr>status = 200, reason = None,
      headers = [(''Content-Type'', ''application/json''), (''Access-Control-Allow-Origin'', ''*'')],
      body = Json v\<rparr>"

subsection \<open>\<open>do_GET\<close>\<close>

definition modules :: "string list" where
  "modules =
     [''threat-intelligence'', ''incident-response'', ''vulnerability-management'',
      ''ioc-management'', ''threat-actors'', ''threat-feeds'', ''siem'',
      ''threat-hunting'', ''risk-assessment'', ''collaboration'', ''reporting'',
      ''malware-analysis'', ''dark-web'', ''compliance'', ''automation'']"

definition health_response :: "string \<Rightarrow> json" where
  "health_response now =
     JObj [(''status'', JStr ''operational''),
           (''timestamp'', JStr now),
           (''services'', JObj [(''database'', JStr ''connected''), (''redis'', JStr ''connected'')])]"

definition module_response :: "string \<Rightarrow> json" where
  "module_response module =
     JObj [(''success'', JBool True), (''data'', JArr []), (''total'', JInt 0),
           (''module'', JStr module)]"

definition module_health_response :: "string \<Rightarrow> json" where
  "module_health_response module =
     JObj [(''module'', JStr module), (''status'', JStr ''operational''),
           (''version'', JStr ''1.0.0'')]"

text \<open>The \<open>for module in modules\<close> loop, with the \<open>send_error(404)\<close> that follows it.\<close>

fun module_loop :: "string \<Rightarrow> string list \<Rightarrow> response" where
  "module_loop p [] = send_error 404 None"
| "module_loop p (module # ms) =
     (if p = ''/api/v1/'' @ module \<or> p = ''/api/v1/'' @ module @ ''/''
      then send_json (module_response module)
      else if p = ''/api/v1/'' @ module @ ''/health''
      then send_json (module_health_response module)
      else module_loop p ms)"

text \<open>\<open>now\<close> is the text of \<open>datetime.now().isoformat()\<close> at the call.\<close>

definition do_GET :: "(string \<Rightarrow> bool) \<Rightarrow> string \<Rightarrow> string \<Rightarrow> outcome" where
  "do_GET checknetloc now target =
     (case urlparse_path checknetloc target of
        Inl e \<Rightarrow> Raised e
      | Inr p \<Rightarrow>
          if p = ''/health'' \<or> p = ''/api/v1/health''
          then Sent (send_json (health_response now))
          else Sent (module_loop p modules))"

subsection \<open>\<open>do_POST\<close>\<close>

definition login_success :: json where
  "login_success =
     JObj [(''success'', JBool True), (''token'', JStr ''mock-jwt-token''),
           (''user'', JObj [(''id'', JStr ''1''), (''email'', JStr ''admin@blackcross.com''),
                            (''role'', JStr ''admin'')])]"

definition login_failure :: json where
  "login_failure = JObj [(''success'', JBool False), (''error'', JStr ''Invalid credentials'')]"

text \<open>
  The body of the \<open>try\<close>: \<open>Inl\<close> is the text of the exception that reaches the \<open>except\<close>
  clause. \<open>loads\<close> stands for \<open>json.loads(post_data.decode())\<close>, with \<open>Inl\<close> the text of
  what it raises. Comparing a value that is not a string with a string is false.
\<close>

definition login_try :: "(string \<Rightarrow> string + json) \<Rightarrow> string \<Rightarrow> string + response" where
  "login_try loads post_data =
     (case loads post_data of
        Inl e \<Rightarrow> Inl e
      | Inr data \<Rightarrow>
          (case data_get data ''email'' (JStr '''') of
             Inl e \<Rightarrow> Inl e
           | Inr email \<Rightarrow>
               (case data_get data ''password'' (JStr '''') of
                  Inl e \<Rightarrow> Inl e
                | Inr password \<Rightarrow>
                    Inr (send_json
                          (if email = JStr ''admin@blackcross.com'' \<and> password = JStr ''admin''
                           then login_success else login_failure)))))"

definition do_POST :: "(string \<Rightarrow> string + json) \<Rightarrow> (nat \<Rightarrow> bool) \<Rightarrow> request \<Rightarrow> outcome" where
  "do_POST loads can_allocate req =
     (if self_path req = ''/api/v1/auth/login'' then
        (case py_int (headers_getitem (req_headers req) ''Content-Length'') of
           Inl e \<Rightarrow> Raised e
         | Inr content_length \<Rightarrow>
             (case rfile_read can_allocate content_length (rfile req) of
                Inl e \<Rightarrow> Raised e
              | Inr post_data \<Rightarrow>
                  (case login_try loads post_data of
                     Inl e \<Rightarrow> Sent (send_error 400 (Some (''Bad Request: '' @ e)))
                   | Inr r \<Rightarrow> Sent r)))
      else Sent (send_error 404 None))"

subsection \<open>\<open>do_OPTIONS\<close> and the dispatch\<close>

definition do_OPTIONS :: response where
  "do_OPTIONS =
     \<lparr>status = 200, reason = None,
      headers = [(''Access-Control-Allow-Origin'', ''*''),
                 (''Access-Control-Allow-Methods'', ''GET, POST, OPTIONS''),
                 (''Access-Control-Allow-Headers'', ''Content-Type'')],
      body = Empty\<rparr>"

text \<open>The base class calls the method named after the command.\<close>

definition handle ::
  "(string \<Rightarrow> bool) \<Rightarrow> (string \<Rightarrow> string + json) \<Rightarrow> (nat \<Rightarrow> bool) \<Rightarrow> string \<Rightarrow> request
     \<Rightarrow> outcome" where
  "handle checknetloc loads can_allocate now req =
     (case command req of
        GET \<Rightarrow> do_GET checknetloc now (self_path req)
      | POST \<Rightarrow> do_POST loads can_allocate req
      | OPTIONS \<Rightarrow> Sent do_OPTIONS)"

subsection \<open>A request as the server handles it\<close>






subsection \<open>Notions the statements use\<close>

text \<open>The body of a login request as \<open>do_POST\<close> reads it: \<open>Content-Length\<close> bytes of
  the stream, when the header is there and is an integer that \<open>read\<close> accepts.\<close>

definition post_data :: "(nat \<Rightarrow> bool) \<Rightarrow> request \<Rightarrow> exn + string" where
  "post_data can_allocate req =
     (case py_int (headers_getitem (req_headers req) ''Content-Length'') of
        Inl e \<Rightarrow> Inl e
      | Inr content_length \<Rightarrow> rfile_read can_allocate content_length (rfile req))"

text \<open>A field of a decoded object, the empty string when it is missing.\<close>

definition field_or_empty :: "(string \<times> json) list \<Rightarrow> string \<Rightarrow> json" where
  "field_or_empty kvs key = (case map_of kvs key of None \<Rightarrow> JStr '''' | Some v \<Rightarrow> v)"

definition is_dict :: "json \<Rightarrow> bool" where
  "is_dict v = (case v of JObj _ \<Rightarrow> True | _ \<Rightarrow> False)"

text \<open>The paths \<open>do_GET\<close> answers.\<close>

definition module_routes :: "string \<Rightarrow> string list" where
  "module_routes module =
     [''/api/v1/'' @ module, ''/api/v1/'' @ module @ ''/'', ''/api/v1/'' @ module @ ''/health'']"

definition get_routes :: "string list" where
  "get_routes = [''/health'', ''/api/v1/health''] @ concat (map module_routes modules)"

text \<open>The request target up to its first question mark.\<close>

definition strip_query :: "string \<Rightarrow> string" where
  "strip_query target = takeWhile (\<lambda>c. c \<noteq> CHR ''?'') target"

definition carries :: "response \<Rightarrow> string \<Rightarrow> string \<Rightarrow> bool" where
  "carries r name v = ((name, v) \<in> set (headers r))"

definition has_header :: "response \<Rightarrow> string \<Rightarrow> bool" where
  "has_header r name = (name \<in> fst ` set (headers r))"



text \<open>Sample inputs for the concrete instances below: two login bodies, a decoder that
  knows four bodies, and host checks that pass.\<close>

definition admin_body :: string where
  \<open>admin_body = ''{"email":"admin@blackcross.com","password":"admin"}''\<close>

definition wrong_body :: string where
  \<open>wrong_body = ''{"email":"x","password":"y"}''\<close>

definition sample_loads :: "string \<Rightarrow> string + json" where
  "sample_loads s =
     (if s = ''{}'' then Inr (JObj [])
      else if s = admin_body
      then Inr (JObj [(''email'', JStr ''admin@blackcross.com''), (''password'', JStr ''admin'')])
      else if s = wrong_body
      then Inr (JObj [(''email'', JStr ''x''), (''password'', JStr ''y'')])
      else if s = ''[]'' then Inr (JArr [])
      else Inl ''Expecting value: line 1 column 1 (char 0)'')"

definition sample_can_allocate :: "nat \<Rightarrow> bool" where
  "sample_can_allocate n = (n \<le> 1073741824)"

definition sample_checknetloc :: "string \<Rightarrow> bool" where
  "sample_checknetloc netloc = True"

definition sample_login :: "string \<Rightarrow> string \<Rightarrow> request" where
  "sample_login content_length sent =
     \<lparr>command = POST, self_path = ''/api/v1/auth/login'',
      req_headers = [(''Host'', ''localhost:8080''), (''content-length'', content_length)],
      rfile = sent\<rparr>"

definition sample_get :: "string \<Rightarrow> request" where
  "sample_get target = \<lparr>command = GET, self_path = target, req_headers = [], rfile = ''''\<rparr>"





section \<open>Properties\<close>

subsection \<open>Preflight requests\<close>

text \<open>
  C8. Every OPTIONS request, whatever its path, headers and body, is answered with
  status 200, an empty body, and the headers \<open>Access-Control-Allow-Origin: *\<close>,
  \<open>Access-Control-Allow-Methods: GET, POST, OPTIONS\<close> and
  \<open>Access-Control-Allow-Headers: Content-Type\<close>.
\<close>

theorem options_response:
  assumes "command req = OPTIONS"
  shows "\<exists>r. handle checknetloc loads can_allocate now req = Sent r \<and> status r = 200 \<and> body r = Empty
           \<and> carries r ''Access-Control-Allow-Origin'' ''*''
           \<and> carries r ''Access-Control-Allow-Methods'' ''GET, POST, OPTIONS''
           \<and> carries r ''Access-Control-Allow-Headers'' ''Content-Type''"
  using assms by (simp add: handle_def do_OPTIONS_def carries_def)

theorem options_response_witness:
  "command \<lparr>command = OPTIONS, self_path = ''/any/path?q=1'', req_headers = [], rfile = ''''\<rparr> = OPTIONS
   \<and> (\<exists>r. handle sample_checknetloc sample_loads sample_can_allocate ''2024-01-01T00:00:00''
              \<lparr>command = OPTIONS, self_path = ''/any/path?q=1'', req_headers = [], rfile = ''''\<rparr> = Sent r
          \<and> status r = 200 \<and> body r = Empty
          \<and> carries r ''Access-Control-Allow-Origin'' ''*''
          \<and> carries r ''Access-Control-Allow-Methods'' ''GET, POST, OPTIONS''
          \<and> carries r ''Access-Control-Allow-Headers'' ''Content-Type'')"
  using options_response [of "\<lparr>command = OPTIONS, self_path = ''/any/path?q=1'', req_headers = [], rfile = ''''\<rparr>"
      sample_checknetloc sample_loads sample_can_allocate "''2024-01-01T00:00:00''"]
  by simp

subsection \<open>Exceptions that leave the handler\<close>

text \<open>
  C3. The claim is that handling a request never raises an uncaught exception, a
  missing or non-numeric \<open>Content-Length\<close> on a login POST included. The code reads and
  converts the header before the \<open>try\<close>: a login POST without the header leaves
  \<open>do_POST\<close> with \<open>TypeError\<close>, and one whose header is not a number with
  \<open>ValueError\<close>, and no response is sent.
\<close>

theorem login_without_content_length_raises:
  "do_POST loads can_allocate \<lparr>command = POST, self_path = ''/api/v1/auth/login'', req_headers = [],
                   rfile = wrong_body\<rparr> = Raised TypeError
   \<and> do_POST loads can_allocate \<lparr>command = POST, self_path = ''/api/v1/auth/login'',
                      req_headers = [(''Content-Length'', ''abc'')],
                      rfile = wrong_body\<rparr> = Raised ValueError"
  by (simp add: do_POST_def py_int_def strip_def isspace_def ord_def int_unsigned_def
      isdigit_def lower_def)

text \<open>
  The read of line 79 is before the \<open>try\<close> as well: a \<open>Content-Length\<close> that does not
  fit an index leaves \<open>do_POST\<close> with \<open>OverflowError\<close>, one that cannot be allocated with
  \<open>MemoryError\<close>, and a negative one other than \<open>-1\<close> with \<open>ValueError\<close>.
\<close>

lemma login_unreadable_content_length_raises:
  "do_POST loads can_allocate (sample_login ''9223372036854775808'' ''abc'') = Raised OverflowError"
  "do_POST loads can_allocate (sample_login ''9223372036854775807'' ''abc'') = Raised OverflowError"
  "do_POST loads (\<lambda>n. n \<le> 1073741824) (sample_login ''1000000000000000'' ''abc'')
     = Raised MemoryError"
  "do_POST loads can_allocate (sample_login ''-2'' ''abc'') = Raised ValueError"
  by (simp_all add: do_POST_def sample_login_def py_int_def strip_def isspace_def ord_def
      int_unsigned_def isdigit_def lower_def lower_char_def rfile_read_def)

subsection \<open>The login request\<close>

lemma do_POST_login:
  assumes "self_path req = ''/api/v1/auth/login''" and "post_data can_allocate req = Inr d"
  shows "do_POST loads can_allocate req =
           (case login_try loads d of
              Inl e \<Rightarrow> Sent (send_error 400 (Some (''Bad Request: '' @ e)))
            | Inr r \<Rightarrow> Sent r)"
  using assms by (auto simp: do_POST_def post_data_def split: sum.splits)

lemma post_data_sample_login:
  "post_data sample_can_allocate (sample_login ''51'' admin_body) = Inr admin_body"
  "post_data sample_can_allocate (sample_login ''28'' wrong_body) = Inr wrong_body"
  "post_data sample_can_allocate (sample_login ''3'' ''abc'') = Inr ''abc''"
  "post_data sample_can_allocate (sample_login ''2'' ''[]'') = Inr ''[]''"
  by (simp_all add: sample_login_def post_data_def py_int_def strip_def isspace_def ord_def
      int_unsigned_def isdigit_def lower_def lower_char_def rfile_read_def admin_body_def
      wrong_body_def sample_can_allocate_def)

lemma sample_loads_values:
  "sample_loads admin_body =
     Inr (JObj [(''email'', JStr ''admin@blackcross.com''), (''password'', JStr ''admin'')])"
  "sample_loads wrong_body = Inr (JObj [(''email'', JStr ''x''), (''password'', JStr ''y'')])"
  "sample_loads ''abc'' = Inl ''Expecting value: line 1 column 1 (char 0)''"
  "sample_loads ''[]'' = Inr (JArr [])"
  by (simp_all add: sample_loads_def admin_body_def wrong_body_def)

text \<open>
  C1. A POST to \<open>/api/v1/auth/login\<close> whose body decodes as a JSON object is answered
  with status 200; the body is the success object exactly when the \<open>email\<close> field is
  \<open>admin@blackcross.com\<close> and the \<open>password\<close> field is \<open>admin\<close>, a missing field counting
  as the empty string, and the \<open>Invalid credentials\<close> object otherwise. The body of the
  request is what \<open>do_POST\<close> reads under the \<open>Content-Length\<close> header.
\<close>

theorem login_response:
  assumes "self_path req = ''/api/v1/auth/login''"
    and "post_data can_allocate req = Inr d"
    and "loads d = Inr (JObj kvs)"
  shows "do_POST loads can_allocate req =
           Sent \<lparr>status = 200, reason = None,
                 headers = [(''Content-Type'', ''application/json''),
                            (''Access-Control-Allow-Origin'', ''*'')],
                 body = Json
                   (if field_or_empty kvs ''email'' = JStr ''admin@blackcross.com''
                       \<and> field_or_empty kvs ''password'' = JStr ''admin''
                    then JObj [(''success'', JBool True), (''token'', JStr ''mock-jwt-token''),
                               (''user'', JObj [(''id'', JStr ''1''),
                                                (''email'', JStr ''admin@blackcross.com''),
                                                (''role'', JStr ''admin'')])]
                    else JObj [(''success'', JBool False),
                               (''error'', JStr ''Invalid credentials'')])\<rparr>"
proof -
  let ?ok = "field_or_empty kvs ''email'' = JStr ''admin@blackcross.com''
             \<and> field_or_empty kvs ''password'' = JStr ''admin''"
  have "login_try loads d = Inr (send_json (if ?ok then login_success else login_failure))"
    using assms(3) by (simp add: login_try_def data_get_def field_or_empty_def)
  then have "do_POST loads can_allocate req
               = Sent (send_json (if ?ok then login_success else login_failure))"
    using do_POST_login [OF assms(1,2), of loads] by simp
  then show ?thesis
    by (simp add: send_json_def login_success_def login_failure_def)
qed

theorem login_response_witness:
  "self_path (sample_login ''51'' admin_body) = ''/api/v1/auth/login''
   \<and> post_data sample_can_allocate (sample_login ''51'' admin_body) = Inr admin_body
   \<and> sample_loads admin_body =
       Inr (JObj [(''email'', JStr ''admin@blackcross.com''), (''password'', JStr ''admin'')])
   \<and> do_POST sample_loads sample_can_allocate (sample_login ''51'' admin_body) =
       Sent \<lparr>status = 200, reason = None,
             headers = [(''Content-Type'', ''application/json''),
                        (''Access-Control-Allow-Origin'', ''*'')],
             body = Json (JObj [(''success'', JBool True), (''token'', JStr ''mock-jwt-token''),
                                (''user'', JObj [(''id'', JStr ''1''),
                                                 (''email'', JStr ''admin@blackcross.com''),
                                                 (''role'', JStr ''admin'')])])\<rparr>
   \<and> post_data sample_can_allocate (sample_login ''28'' wrong_body) = Inr wrong_body
   \<and> sample_loads wrong_body = Inr (JObj [(''email'', JStr ''x''), (''password'', JStr ''y'')])
   \<and> do_POST sample_loads sample_can_allocate (sample_login ''28'' wrong_body) =
       Sent \<lparr>status = 200, reason = None,
             headers = [(''Content-Type'', ''application/json''),
                        (''Access-Control-Allow-Origin'', ''*'')],
             body = Json (JObj [(''success'', JBool False),
                                (''error'', JStr ''Invalid credentials'')])\<rparr>"
proof -
  have p: "self_path (sample_login c s) = ''/api/v1/auth/login''" for c s
    by (simp add: sample_login_def)
  note a = login_response [where loads = sample_loads,
      OF p post_data_sample_login(1) sample_loads_values(1)]
  note b = login_response [where loads = sample_loads,
      OF p post_data_sample_login(2) sample_loads_values(2)]
  have a': "do_POST sample_loads sample_can_allocate (sample_login ''51'' admin_body) =
       Sent \<lparr>status = 200, reason = None,
             headers = [(''Content-Type'', ''application/json''),
                        (''Access-Control-Allow-Origin'', ''*'')],
             body = Json (JObj [(''success'', JBool True), (''token'', JStr ''mock-jwt-token''),
                                (''user'', JObj [(''id'', JStr ''1''),
                                                 (''email'', JStr ''admin@blackcross.com''),
                                                 (''role'', JStr ''admin'')])])\<rparr>"
    using a by (simp add: field_or_empty_def)
  have b': "do_POST sample_loads sample_can_allocate (sample_login ''28'' wrong_body) =
       Sent \<lparr>status = 200, reason = None,
             headers = [(''Content-Type'', ''application/json''),
                        (''Access-Control-Allow-Origin'', ''*'')],
             body = Json (JObj [(''success'', JBool False),
                                (''error'', JStr ''Invalid credentials'')])\<rparr>"
    using b by (simp add: field_or_empty_def)
  show ?thesis
    using p a' b' post_data_sample_login(1,2) sample_loads_values(1,2) by blast
qed

text \<open>
  C5. A POST to \<open>/api/v1/auth/login\<close> whose body cannot be decoded as JSON is answered
  with status 400, and the message of the response is \<open>Bad Request: \<close> followed by the
  text of the exception that the decoding raised.
\<close>

theorem malformed_body_400:
  assumes "self_path req = ''/api/v1/auth/login''"
    and "post_data can_allocate req = Inr d"
    and "loads d = Inl e"
  shows "\<exists>r. do_POST loads can_allocate req = Sent r \<and> status r = 400
           \<and> reason r = Some (''Bad Request: '' @ e)
           \<and> body r = ErrorPage 400 (Some (''Bad Request: '' @ e))"
  using do_POST_login [OF assms(1,2), of loads] assms(3)
  by (simp add: login_try_def send_error_def)

theorem malformed_body_400_witness:
  "self_path (sample_login ''3'' ''abc'') = ''/api/v1/auth/login''
   \<and> post_data sample_can_allocate (sample_login ''3'' ''abc'') = Inr ''abc''
   \<and> sample_loads ''abc'' = Inl ''Expecting value: line 1 column 1 (char 0)''
   \<and> (\<exists>r. do_POST sample_loads sample_can_allocate (sample_login ''3'' ''abc'') = Sent r \<and> status r = 400
          \<and> reason r = Some ''Bad Request: Expecting value: line 1 column 1 (char 0)'')"
proof -
  have p: "self_path (sample_login ''3'' ''abc'') = ''/api/v1/auth/login''"
    by (simp add: sample_login_def)
  have "\<exists>r. do_POST sample_loads sample_can_allocate (sample_login ''3'' ''abc'') = Sent r \<and> status r = 400
          \<and> reason r = Some ''Bad Request: Expecting value: line 1 column 1 (char 0)''"
    using malformed_body_400 [where loads = sample_loads,
        OF p post_data_sample_login(3) sample_loads_values(3)]
    by auto
  then show ?thesis
    using p post_data_sample_login(3) sample_loads_values(3) by blast
qed

text \<open>
  C10. A POST to \<open>/api/v1/auth/login\<close> whose body is valid JSON but not an object (an
  array, a string, a number, a boolean, null) is answered with status 400, not with a
  200 carrying \<open>success: false\<close>: \<open>data.get\<close> raises \<open>AttributeError\<close> inside the \<open>try\<close>,
  and its text is the message.
\<close>

theorem non_object_body_400:
  assumes "self_path req = ''/api/v1/auth/login''"
    and "post_data can_allocate req = Inr d"
    and "loads d = Inr v"
    and "\<not> is_dict v"
  shows "\<exists>r. do_POST loads can_allocate req = Sent r \<and> status r = 400
           \<and> reason r = Some (''Bad Request: '' @ [CHR 0x27] @ type_name v @ [CHR 0x27]
                                @ '' object has no attribute '' @ [CHR 0x27] @ ''get'' @ [CHR 0x27])"
  using do_POST_login [OF assms(1,2), of loads] assms(3,4)
  by (cases v)
    (simp_all add: login_try_def send_error_def data_get_def is_dict_def no_attribute_def)

theorem non_object_body_400_witness:
  "self_path (sample_login ''2'' ''[]'') = ''/api/v1/auth/login''
   \<and> post_data sample_can_allocate (sample_login ''2'' ''[]'') = Inr ''[]''
   \<and> sample_loads ''[]'' = Inr (JArr [])
   \<and> \<not> is_dict (JArr [])
   \<and> (\<exists>r. do_POST sample_loads sample_can_allocate (sample_login ''2'' ''[]'') = Sent r \<and> status r = 400
          \<and> reason r = Some (''Bad Request: '' @ [CHR 0x27] @ ''list'' @ [CHR 0x27]
                               @ '' object has no attribute '' @ [CHR 0x27] @ ''get'' @ [CHR 0x27]))"
proof -
  have p: "self_path (sample_login ''2'' ''[]'') = ''/api/v1/auth/login''"
    by (simp add: sample_login_def)
  have d: "\<not> is_dict (JArr [])"
    by (simp add: is_dict_def)
  have "\<exists>r. do_POST sample_loads sample_can_allocate (sample_login ''2'' ''[]'') = Sent r \<and> status r = 400
          \<and> reason r = Some (''Bad Request: '' @ [CHR 0x27] @ ''list'' @ [CHR 0x27]
                               @ '' object has no attribute '' @ [CHR 0x27] @ ''get'' @ [CHR 0x27])"
    using non_object_body_400 [where loads = sample_loads,
        OF p post_data_sample_login(4) sample_loads_values(4) d]
    by (simp add: type_name_def)
  then show ?thesis
    using p d post_data_sample_login(4) sample_loads_values(4) by blast
qed

subsection \<open>The module endpoints\<close>

lemma snoc_slash_neq_health: "m @ ''/'' \<noteq> x @ ''/health''"
proof
  assume "m @ ''/'' = x @ ''/health''"
  then have "last (m @ ''/'') = last (x @ ''/health'')" by simp
  then show False by simp
qed

lemma module_loop_module:
  assumes "m \<in> set ms" and "\<forall>x \<in> set ms. CHR ''/'' \<notin> set x"
  shows "module_loop (''/api/v1/'' @ m) ms = send_json (module_response m)"
  using assms by (induction ms) auto

lemma module_loop_module_slash:
  assumes "m \<in> set ms" and "\<forall>x \<in> set ms. CHR ''/'' \<notin> set x"
  shows "module_loop (''/api/v1/'' @ m @ ''/'') ms = send_json (module_response m)"
  using assms by (induction ms) (auto simp: snoc_slash_neq_health)

lemma module_loop_health:
  assumes "m \<in> set ms" and "\<forall>x \<in> set ms. CHR ''/'' \<notin> set x"
  shows "module_loop (''/api/v1/'' @ m @ ''/health'') ms = send_json (module_health_response m)"
  using assms by (induction ms) (auto simp: snoc_slash_neq_health [symmetric])

lemma modules_no_slash: "\<forall>x \<in> set modules. CHR ''/'' \<notin> set x"
  by (simp add: modules_def)

lemma modules_not_health: "m \<in> set modules \<Longrightarrow> m \<noteq> ''health'' \<and> m \<noteq> ''''"
  by (auto simp: modules_def)

lemma urlparse_path_plain:
  assumes "\<forall>c \<in> set q. c \<noteq> CHR ''#'' \<and> c \<noteq> CHR ''?'' \<and> c \<noteq> CHR '';'' \<and> \<not> unsafe_url_byte c"
    and "take 1 q \<noteq> ''/''"
  shows "urlparse_path checknetloc (CHR ''/'' # q) = Inr (CHR ''/'' # q)"
proof -
  let ?p = "CHR ''/'' # q"
  have u: "\<not> unsafe_url_byte (CHR ''/'')" "\<not> c0_control_or_space (CHR ''/'')"
    by (simp_all add: unsafe_url_byte_def c0_control_or_space_def ord_def)
  have f: "filter (\<lambda>c. \<not> unsafe_url_byte c) q = q"
    using assms(1) by (simp add: filter_id_conv)
  have s: "split_scheme ?p = ('''', ?p)"
    by (simp add: split_scheme_def isalpha_def ord_def)
  have t: "take 2 ?p \<noteq> ''//''"
    using assms(2) by (cases q) auto
  have h: "takeWhile (\<lambda>c. c \<noteq> CHR ''#'') q = q" "takeWhile (\<lambda>c. c \<noteq> CHR ''?'') q = q"
    using assms(1) by (simp_all add: takeWhile_eq_all_conv)
  have n: "CHR '';'' \<notin> set q"
    using assms(1) by auto
  show ?thesis
    using t n by (simp add: urlparse_path_def u f s h)
qed

lemma modules_plain:
  "m \<in> set modules \<Longrightarrow>
     (\<forall>c \<in> set m. c \<noteq> CHR ''/'' \<and> c \<noteq> CHR ''#'' \<and> c \<noteq> CHR ''?'' \<and> c \<noteq> CHR '';''
                  \<and> \<not> unsafe_url_byte c) \<and> m \<noteq> '''' \<and> m \<noteq> ''health''"
  unfolding modules_def by (auto simp: unsafe_url_byte_def ord_def)

lemma urlparse_path_module_routes:
  assumes "m \<in> set modules" and "sfx = '''' \<or> sfx = ''/'' \<or> sfx = ''/health''"
  shows "urlparse_path checknetloc (''/api/v1/'' @ m @ sfx) = Inr (''/api/v1/'' @ m @ sfx)"
proof -
  have m: "\<forall>c \<in> set m. c \<noteq> CHR ''#'' \<and> c \<noteq> CHR ''?'' \<and> c \<noteq> CHR '';'' \<and> \<not> unsafe_url_byte c"
    using modules_plain [OF assms(1)] by blast
  have x: "\<forall>c \<in> set (''api/v1/'' @ sfx).
             c \<noteq> CHR ''#'' \<and> c \<noteq> CHR ''?'' \<and> c \<noteq> CHR '';'' \<and> \<not> unsafe_url_byte c"
    using assms(2) by (auto simp: unsafe_url_byte_def ord_def)
  have "\<forall>c \<in> set (''api/v1/'' @ m @ sfx).
          c \<noteq> CHR ''#'' \<and> c \<noteq> CHR ''?'' \<and> c \<noteq> CHR '';'' \<and> \<not> unsafe_url_byte c"
    using m x by (metis Un_iff set_append)
  moreover have "take 1 (''api/v1/'' @ m @ sfx) \<noteq> ''/''" by simp
  ultimately have "urlparse_path checknetloc (CHR ''/'' # ''api/v1/'' @ m @ sfx)
                     = Inr (CHR ''/'' # ''api/v1/'' @ m @ sfx)"
    by (rule urlparse_path_plain)
  then show ?thesis by simp
qed

lemma snoc_slash_neq_word: "m @ ''/'' \<noteq> ''health''"
proof
  assume "m @ ''/'' = ''health''"
  then have "last (m @ ''/'') = last ''health''" by simp
  then show False by simp
qed

lemma append_health_neq_word: "m @ ''/health'' \<noteq> ''health''"
proof
  assume "m @ ''/health'' = ''health''"
  then have "length (m @ ''/health'') = length ''health''" by simp
  then show False by simp
qed

lemma do_GET_module:
  assumes "m \<in> set modules" and "urlparse_path checknetloc target = Inr p"
    and "p = ''/api/v1/'' @ m \<or> p = ''/api/v1/'' @ m @ ''/''"
  shows "do_GET checknetloc now target = Sent (send_json (module_response m))"
proof -
  have h: "p \<noteq> ''/health''" "p \<noteq> ''/api/v1/health''"
    using assms(3) modules_not_health [OF assms(1)] by (auto simp: snoc_slash_neq_word)
  have "module_loop p modules = send_json (module_response m)"
    using assms(3) module_loop_module [OF assms(1) modules_no_slash]
      module_loop_module_slash [OF assms(1) modules_no_slash] by blast
  then show ?thesis
    using assms(2) h by (simp add: do_GET_def)
qed

lemma do_GET_module_health:
  assumes "m \<in> set modules"
    and "urlparse_path checknetloc target = Inr (''/api/v1/'' @ m @ ''/health'')"
  shows "do_GET checknetloc now target = Sent (send_json (module_health_response m))"
proof -
  have "module_loop (''/api/v1/'' @ m @ ''/health'') modules = send_json (module_health_response m)"
    by (rule module_loop_health [OF assms(1) modules_no_slash])
  then show ?thesis
    using assms(2) by (simp add: do_GET_def append_health_neq_word)
qed

text \<open>
  C2. For each of the fifteen module names, a GET whose path is \<open>/api/v1/{module}\<close> or
  \<open>/api/v1/{module}/\<close> is answered with status 200 and the body
  \<open>{success: true, data: [], total: 0, module: <that name>}\<close>. It holds for the request
  target that is this path itself, and for every target of which it is the path component.
\<close>

theorem module_endpoint:
  assumes "m \<in> set modules"
  shows "do_GET checknetloc now (''/api/v1/'' @ m) = Sent (send_json (module_response m))
       \<and> do_GET checknetloc now (''/api/v1/'' @ m @ ''/'') = Sent (send_json (module_response m))
       \<and> (\<forall>target. urlparse_path checknetloc target = Inr (''/api/v1/'' @ m)
                    \<or> urlparse_path checknetloc target = Inr (''/api/v1/'' @ m @ ''/'')
             \<longrightarrow> do_GET checknetloc now target = Sent (send_json (module_response m)))
       \<and> send_json (module_response m) =
           \<lparr>status = 200, reason = None,
            headers = [(''Content-Type'', ''application/json''), (''Access-Control-Allow-Origin'', ''*'')],
            body = Json (JObj [(''success'', JBool True), (''data'', JArr []), (''total'', JInt 0),
                               (''module'', JStr m)])\<rparr>"
proof (intro conjI allI impI)
  have "urlparse_path checknetloc (''/api/v1/'' @ m @ '''') = Inr (''/api/v1/'' @ m @ '''')"
    by (rule urlparse_path_module_routes [OF assms]) simp
  then have "urlparse_path checknetloc (''/api/v1/'' @ m) = Inr (''/api/v1/'' @ m)"
    by simp
  then show "do_GET checknetloc now (''/api/v1/'' @ m) = Sent (send_json (module_response m))"
    by (rule do_GET_module [OF assms]) simp
next
  have "urlparse_path checknetloc (''/api/v1/'' @ m @ ''/'') = Inr (''/api/v1/'' @ m @ ''/'')"
    by (rule urlparse_path_module_routes [OF assms]) simp
  then show "do_GET checknetloc now (''/api/v1/'' @ m @ ''/'') = Sent (send_json (module_response m))"
    by (rule do_GET_module [OF assms]) simp
next
  fix target
  assume "urlparse_path checknetloc target = Inr (''/api/v1/'' @ m)
           \<or> urlparse_path checknetloc target = Inr (''/api/v1/'' @ m @ ''/'')"
  then show "do_GET checknetloc now target = Sent (send_json (module_response m))"
    using do_GET_module [OF assms, of checknetloc target] by blast
next
  show "send_json (module_response m) =
           \<lparr>status = 200, reason = None,
            headers = [(''Content-Type'', ''application/json''), (''Access-Control-Allow-Origin'', ''*'')],
            body = Json (JObj [(''success'', JBool True), (''data'', JArr []), (''total'', JInt 0),
                               (''module'', JStr m)])\<rparr>"
    by (simp add: send_json_def module_response_def)
qed

text \<open>
  C7. For each of the fifteen module names, a GET of \<open>/api/v1/{module}/health\<close> is
  answered with status 200 and the body
  \<open>{module: <that name>, status: "operational", version: "1.0.0"}\<close>.
\<close>

theorem module_health_endpoint:
  assumes "m \<in> set modules"
  shows "do_GET checknetloc now (''/api/v1/'' @ m @ ''/health'') = Sent (send_json (module_health_response m))
       \<and> (\<forall>target. urlparse_path checknetloc target = Inr (''/api/v1/'' @ m @ ''/health'')
             \<longrightarrow> do_GET checknetloc now target = Sent (send_json (module_health_response m)))
       \<and> send_json (module_health_response m) =
           \<lparr>status = 200, reason = None,
            headers = [(''Content-Type'', ''application/json''), (''Access-Control-Allow-Origin'', ''*'')],
            body = Json (JObj [(''module'', JStr m), (''status'', JStr ''operational''),
                               (''version'', JStr ''1.0.0'')])\<rparr>"
proof (intro conjI allI impI)
  have "urlparse_path checknetloc (''/api/v1/'' @ m @ ''/health'') = Inr (''/api/v1/'' @ m @ ''/health'')"
    by (rule urlparse_path_module_routes [OF assms]) simp
  then show "do_GET checknetloc now (''/api/v1/'' @ m @ ''/health'') = Sent (send_json (module_health_response m))"
    by (rule do_GET_module_health [OF assms])
next
  fix target
  assume "urlparse_path checknetloc target = Inr (''/api/v1/'' @ m @ ''/health'')"
  then show "do_GET checknetloc now target = Sent (send_json (module_health_response m))"
    by (rule do_GET_module_health [OF assms])
next
  show "send_json (module_health_response m) =
           \<lparr>status = 200, reason = None,
            headers = [(''Content-Type'', ''application/json''), (''Access-Control-Allow-Origin'', ''*'')],
            body = Json (JObj [(''module'', JStr m), (''status'', JStr ''operational''),
                               (''version'', JStr ''1.0.0'')])\<rparr>"
    by (simp add: send_json_def module_health_response_def)
qed

theorem module_endpoint_witness:
  "''siem'' \<in> set modules
   \<and> do_GET sample_checknetloc ''2024-01-01T00:00:00'' ''/api/v1/siem'' =
       Sent \<lparr>status = 200, reason = None,
             headers = [(''Content-Type'', ''application/json''), (''Access-Control-Allow-Origin'', ''*'')],
             body = Json (JObj [(''success'', JBool True), (''data'', JArr []), (''total'', JInt 0),
                                (''module'', JStr ''siem'')])\<rparr>
   \<and> do_GET sample_checknetloc ''2024-01-01T00:00:00'' ''/api/v1/siem/?limit=5'' =
       Sent \<lparr>status = 200, reason = None,
             headers = [(''Content-Type'', ''application/json''), (''Access-Control-Allow-Origin'', ''*'')],
             body = Json (JObj [(''success'', JBool True), (''data'', JArr []), (''total'', JInt 0),
                                (''module'', JStr ''siem'')])\<rparr>"
proof -
  have m: "''siem'' \<in> set modules"
    by (simp add: modules_def)
  note t = module_endpoint [OF m, of sample_checknetloc "''2024-01-01T00:00:00''"]
  have a: "do_GET sample_checknetloc ''2024-01-01T00:00:00'' (''/api/v1/'' @ ''siem'')
             = Sent (send_json (module_response ''siem''))"
    using t by (rule conjunct1)
  have u: "urlparse_path sample_checknetloc ''/api/v1/siem/?limit=5'' = Inr (''/api/v1/'' @ ''siem'' @ ''/'')"
    by (simp add: urlparse_path_def split_scheme_def c0_control_or_space_def unsafe_url_byte_def
        ord_def isalpha_def)
  have b: "do_GET sample_checknetloc ''2024-01-01T00:00:00'' ''/api/v1/siem/?limit=5''
             = Sent (send_json (module_response ''siem''))"
    using t u by blast
  have r: "send_json (module_response ''siem'') =
             \<lparr>status = 200, reason = None,
              headers = [(''Content-Type'', ''application/json''), (''Access-Control-Allow-Origin'', ''*'')],
              body = Json (JObj [(''success'', JBool True), (''data'', JArr []), (''total'', JInt 0),
                                 (''module'', JStr ''siem'')])\<rparr>"
    using t by (elim conjE)
  show ?thesis
    using m a b unfolding r by simp
qed

theorem module_health_endpoint_witness:
  "''dark-web'' \<in> set modules
   \<and> do_GET sample_checknetloc ''2024-01-01T00:00:00'' ''/api/v1/dark-web/health'' =
       Sent \<lparr>status = 200, reason = None,
             headers = [(''Content-Type'', ''application/json''), (''Access-Control-Allow-Origin'', ''*'')],
             body = Json (JObj [(''module'', JStr ''dark-web''), (''status'', JStr ''operational''),
                                (''version'', JStr ''1.0.0'')])\<rparr>"
proof -
  have m: "''dark-web'' \<in> set modules"
    by (simp add: modules_def)
  note t = module_health_endpoint [OF m, of sample_checknetloc "''2024-01-01T00:00:00''"]
  have a: "do_GET sample_checknetloc ''2024-01-01T00:00:00'' (''/api/v1/'' @ ''dark-web'' @ ''/health'')
             = Sent (send_json (module_health_response ''dark-web''))"
    using t by (rule conjunct1)
  have r: "send_json (module_health_response ''dark-web'') =
             \<lparr>status = 200, reason = None,
              headers = [(''Content-Type'', ''application/json''), (''Access-Control-Allow-Origin'', ''*'')],
              body = Json (JObj [(''module'', JStr ''dark-web''), (''status'', JStr ''operational''),
                                 (''version'', JStr ''1.0.0'')])\<rparr>"
    using t by (elim conjE)
  show ?thesis
    using m a unfolding r by simp
qed

subsection \<open>Unmatched routes\<close>

lemma module_loop_miss:
  "p \<notin> set (concat (map module_routes ms)) \<Longrightarrow> module_loop p ms = send_error 404 None"
  by (induction ms) (auto simp: module_routes_def)

text \<open>
  C6, as amended. The claim reads the path of a GET as the request target with the query
  string removed. \<open>do_GET\<close> compares the path component that \<open>urlparse\<close> returns, which
  also leaves out a scheme, a network location, the fragment and the parameters after a
  semicolon in the last segment. What holds: when \<open>urlparse\<close> returns a path that is
  none of \<open>/health\<close>, \<open>/api/v1/health\<close> and the three paths of each module, the answer is
  404; and a POST whose \<open>self.path\<close> is not \<open>/api/v1/auth/login\<close> is answered with 404.
\<close>

theorem unmatched_route_404:
  "(urlparse_path checknetloc target = Inr p \<and> p \<notin> set get_routes
      \<longrightarrow> do_GET checknetloc now target = Sent (send_error 404 None))
   \<and> (self_path req \<noteq> ''/api/v1/auth/login'' \<longrightarrow> do_POST loads can_allocate req = Sent (send_error 404 None))
   \<and> status (send_error 404 None) = 404"
  by (auto simp: do_GET_def get_routes_def module_loop_miss do_POST_def send_error_def)

lemma unknown_module_no_route: "''/api/v1/unknown-module'' \<notin> set get_routes"
  by (simp add: get_routes_def modules_def module_routes_def)

lemma urlparse_path_samples:
  "urlparse_path sample_checknetloc ''/api/v1/unknown-module'' = Inr ''/api/v1/unknown-module''"
  "urlparse_path sample_checknetloc ''/health;x'' = Inr ''/health''"
  "urlparse_path sample_checknetloc ''/health'' = Inr ''/health''"
  by (simp_all add: urlparse_path_def split_scheme_def splitparams_def rfind_slash_def
      uses_params_def c0_control_or_space_def unsafe_url_byte_def ord_def isalpha_def)

theorem unmatched_route_404_witness:
  "urlparse_path sample_checknetloc ''/api/v1/unknown-module'' = Inr ''/api/v1/unknown-module''
   \<and> ''/api/v1/unknown-module'' \<notin> set get_routes
   \<and> do_GET sample_checknetloc ''2024-01-01T00:00:00'' ''/api/v1/unknown-module''
       = Sent (send_error 404 None)
   \<and> self_path (sample_login ''2'' ''{}'' \<lparr>self_path := ''/api/v1/auth/logout''\<rparr>)
       \<noteq> ''/api/v1/auth/login''
   \<and> do_POST sample_loads sample_can_allocate (sample_login ''2'' ''{}'' \<lparr>self_path := ''/api/v1/auth/logout''\<rparr>)
       = Sent (send_error 404 None)
   \<and> status (send_error 404 None) = 404"
proof -
  have q: "self_path (sample_login ''2'' ''{}'' \<lparr>self_path := ''/api/v1/auth/logout''\<rparr>)
             \<noteq> ''/api/v1/auth/login''"
    by (simp add: sample_login_def)
  note t = unmatched_route_404 [of sample_checknetloc "''/api/v1/unknown-module''"
      "''/api/v1/unknown-module''" "''2024-01-01T00:00:00''"
      "sample_login ''2'' ''{}'' \<lparr>self_path := ''/api/v1/auth/logout''\<rparr>" sample_loads
      sample_can_allocate]
  show ?thesis
    using t q urlparse_path_samples(1) unknown_module_no_route by blast
qed

text \<open>
  The claim C6 as stated fails at \<open>GET /health;x\<close>: with the query string removed the
  target is still \<open>/health;x\<close>, which is none of the listed paths, and the answer is the
  health body with status 200.
\<close>

theorem params_route_counterexample:
  "strip_query ''/health;x'' \<notin> set get_routes
   \<and> do_GET sample_checknetloc ''2024-01-01T00:00:00'' ''/health;x''
       = Sent (send_json (health_response ''2024-01-01T00:00:00''))
   \<and> status (send_json (health_response ''2024-01-01T00:00:00'')) = 200"
proof -
  have "strip_query ''/health;x'' = ''/health;x''"
    by (simp add: strip_query_def)
  moreover have "''/health;x'' \<notin> set get_routes"
    by (simp add: get_routes_def modules_def module_routes_def)
  ultimately show ?thesis
    by (simp add: do_GET_def urlparse_path_samples(2) send_json_def)
qed

subsection \<open>Headers of the successful responses\<close>

lemma module_loop_cases:
  "module_loop p ms = send_error 404 None \<or> (\<exists>v. module_loop p ms = send_json v)"
  by (induction ms) auto

lemma do_GET_ok:
  assumes "do_GET checknetloc now target = Sent r" and "status r = 200"
  shows "\<exists>v. r = send_json v"
proof (cases "urlparse_path checknetloc target")
  case (Inl e)
  then show ?thesis using assms by (simp add: do_GET_def)
next
  case (Inr p)
  show ?thesis
  proof (cases "p = ''/health'' \<or> p = ''/api/v1/health''")
    case True
    then show ?thesis using assms Inr by (auto simp: do_GET_def)
  next
    case False
    then have "r = module_loop p modules"
      using assms(1) Inr by (auto simp: do_GET_def)
    then show ?thesis
      using module_loop_cases [of p modules] assms(2) by (auto simp: send_error_def)
  qed
qed

lemma do_POST_ok:
  assumes "do_POST loads can_allocate req = Sent r" and "status r = 200"
  shows "\<exists>v. r = send_json v"
  using assms
  by (auto simp: do_POST_def login_try_def send_error_def split: sum.splits if_splits)

lemma send_json_headers:
  "carries (send_json v) ''Content-Type'' ''application/json''"
  "carries (send_json v) ''Access-Control-Allow-Origin'' ''*''"
  by (simp_all add: send_json_def carries_def)

text \<open>
  C4, as amended. Every response with status 200 to a GET or a POST carries
  \<open>Content-Type: application/json\<close> and \<open>Access-Control-Allow-Origin: *\<close>. The response to
  an OPTIONS request carries \<open>Access-Control-Allow-Origin: *\<close> and no \<open>Content-Type\<close>
  header.
\<close>

theorem ok_response_headers:
  assumes "handle checknetloc loads can_allocate now req = Sent r" and "status r = 200"
  shows "carries r ''Access-Control-Allow-Origin'' ''*''
       \<and> (command req \<noteq> OPTIONS \<longrightarrow> carries r ''Content-Type'' ''application/json'')
       \<and> (command req = OPTIONS \<longrightarrow> \<not> has_header r ''Content-Type'')"
proof (cases "command req")
  case GET
  then have "do_GET checknetloc now (self_path req) = Sent r"
    using assms(1) by (simp add: handle_def)
  then obtain v where "r = send_json v"
    using do_GET_ok assms(2) by blast
  then show ?thesis
    using GET send_json_headers by simp
next
  case POST
  then have "do_POST loads can_allocate req = Sent r"
    using assms(1) by (simp add: handle_def)
  then obtain v where "r = send_json v"
    using do_POST_ok assms(2) by blast
  then show ?thesis
    using POST send_json_headers by simp
next
  case OPTIONS
  then have "r = do_OPTIONS"
    using assms(1) by (simp add: handle_def)
  then show ?thesis
    using OPTIONS by (simp add: do_OPTIONS_def carries_def has_header_def)
qed

text \<open>
  The claim C4 as stated fails at any OPTIONS request: the response has status 200 and
  \<open>do_OPTIONS\<close> sends no \<open>Content-Type\<close> header.
\<close>

theorem options_content_type_counterexample:
  "handle sample_checknetloc sample_loads sample_can_allocate ''2024-01-01T00:00:00''
     \<lparr>command = OPTIONS, self_path = ''/api/v1/siem'', req_headers = [], rfile = ''''\<rparr>
     = Sent do_OPTIONS
   \<and> status do_OPTIONS = 200
   \<and> \<not> carries do_OPTIONS ''Content-Type'' ''application/json''
   \<and> \<not> has_header do_OPTIONS ''Content-Type''"
  by (simp add: handle_def do_OPTIONS_def carries_def has_header_def)

theorem ok_response_headers_witness:
  "handle sample_checknetloc sample_loads sample_can_allocate ''2024-01-01T00:00:00'' (sample_get ''/health'')
     = Sent (send_json (health_response ''2024-01-01T00:00:00''))
   \<and> status (send_json (health_response ''2024-01-01T00:00:00'')) = 200
   \<and> command (sample_get ''/health'') \<noteq> OPTIONS
   \<and> carries (send_json (health_response ''2024-01-01T00:00:00'')) ''Access-Control-Allow-Origin'' ''*''
   \<and> carries (send_json (health_response ''2024-01-01T00:00:00'')) ''Content-Type'' ''application/json''"
proof -
  have h: "handle sample_checknetloc sample_loads sample_can_allocate ''2024-01-01T00:00:00'' (sample_get ''/health'')
             = Sent (send_json (health_response ''2024-01-01T00:00:00''))"
    by (simp add: handle_def sample_get_def do_GET_def urlparse_path_samples(3))
  have s: "status (send_json (health_response ''2024-01-01T00:00:00'')) = 200"
    by (simp add: send_json_def)
  have c: "command (sample_get ''/health'') \<noteq> OPTIONS"
    by (simp add: sample_get_def)
  show ?thesis
    using h s c ok_response_headers [OF h s] by blast
qed

subsection \<open>No state between requests\<close>









end
